theory Spec2Isabelle
  imports
    Complex_Main
    "HOL-Library.AList"
    "HOL-Library.Char_ord"
    "HOL-Library.List_Lexorder"
    "HOL-Library.Product_Lexorder"
    "HOL-Library.Multiset"
begin

section \<open>Tables\<close>

text \<open>
  Both programs work on pandas data frames read from spreadsheets. A cell is missing
  (\<open>NaN\<close>), a number or a text. Numbers are the exact rationals: the marks that the editor
  of \<^verbatim>\<open>talentfinder.py\<close> admits (0 to 100 in steps of 0.5) and their sums are
  represented exactly by the doubles pandas computes with.

  The points of \<^verbatim>\<open>talentfinderpro.py\<close> are added exactly as well: the rounding of
  floating-point sums is outside this model.

  A frame is the list of its columns in their order, each with its label, as pandas
  stores it; the rows are the positions of the columns. Row labels (the index) play no
  part in what the two programs compute and are left out. A frame read from a
  spreadsheet has columns of one length and distinct labels (\<open>wf_frame\<close>).
\<close>

datatype cell = NaN | Num rat | Str string

type_synonym series = "cell list"

type_synonym frame = "(string \<times> series) list"

text \<open>The exceptions of pandas that the programs can meet; a \<^verbatim>\<open>KeyError\<close> carries
  the labels that were not found.\<close>

datatype error = KeyError "string list" | TypeError | ValueError | MergeError

definition columns :: "frame \<Rightarrow> string list" where
  "columns df = map fst df"

text \<open>The number of rows: every column of a frame has this length.\<close>

definition nrows :: "frame \<Rightarrow> nat" where
  "nrows df = (case df of [] \<Rightarrow> 0 | (c, s) # _ \<Rightarrow> length s)"

definition wf_frame :: "frame \<Rightarrow> bool" where
  "wf_frame df \<longleftrightarrow> distinct (columns df) \<and> list_all (\<lambda>(c, s). length s = nrows df) df"

text \<open>\<^verbatim>\<open>df[c]\<close>: the column labelled \<open>c\<close>, or \<^verbatim>\<open>KeyError\<close>.\<close>

definition getitem :: "frame \<Rightarrow> string \<Rightarrow> error + series" where
  "getitem df c = (case map_of df c of None \<Rightarrow> Inl (KeyError [c]) | Some s \<Rightarrow> Inr s)"

text \<open>\<^verbatim>\<open>df[c] = s\<close>: an existing column is overwritten where it stands, a new one is
  appended.\<close>

definition setitem :: "frame \<Rightarrow> string \<Rightarrow> series \<Rightarrow> frame" where
  "setitem df c s = AList.update c s df"

text \<open>\<^verbatim>\<open>s.fillna(v)\<close>\<close>

definition fillna :: "cell \<Rightarrow> series \<Rightarrow> series" where
  "fillna v s = map (\<lambda>c. if c = NaN then v else c) s"

text \<open>
  \<^verbatim>\<open>a + b\<close> on two cells: numbers add, texts concatenate, a missing number stays
  missing, and a number with a text is a \<^verbatim>\<open>TypeError\<close>.
\<close>

fun addable :: "cell \<Rightarrow> cell \<Rightarrow> bool" where
  "addable (Str a) (Str b) = True"
| "addable (Str a) _ = False"
| "addable _ (Str b) = False"
| "addable _ _ = True"

fun plus_cell :: "cell \<Rightarrow> cell \<Rightarrow> cell" where
  "plus_cell (Num a) (Num b) = Num (a + b)"
| "plus_cell (Str a) (Str b) = Str (a @ b)"
| "plus_cell _ _ = NaN"

definition add_series :: "series \<Rightarrow> series \<Rightarrow> error + series" where
  "add_series xs ys =
     (if list_all (\<lambda>(a, b). addable a b) (zip xs ys)
      then Inr (map (\<lambda>(a, b). plus_cell a b) (zip xs ys))
      else Inl TypeError)"

subsection \<open>Order of cells\<close>

text \<open>
  Python compares numbers by value and texts lexicographically by code point, and refuses
  to compare a number with a text. \<open>cell_key\<close> maps a cell into a linear order that agrees
  with Python's on the cells of one kind and puts numbers before texts before missing
  cells, which is the order pandas falls back to when it sorts the keys of a grouping.
\<close>

fun cell_key :: "cell \<Rightarrow> nat \<times> rat \<times> string" where
  "cell_key (Num r) = (0, r, [])"
| "cell_key (Str s) = (1, 0, s)"
| "cell_key NaN = (2, 0, [])"

fun is_Num :: "cell \<Rightarrow> bool" where
  "is_Num (Num r) = True"
| "is_Num _ = False"

fun is_Str :: "cell \<Rightarrow> bool" where
  "is_Str (Str s) = True"
| "is_Str _ = False"

text \<open>A column can be sorted when it does not mix numbers with texts.\<close>

definition comparable :: "series \<Rightarrow> bool" where
  "comparable s \<longleftrightarrow> list_all (\<lambda>c. \<not> is_Str c) s \<or> list_all (\<lambda>c. \<not> is_Num c) s"

subsection \<open>Sorting and ranking\<close>

text \<open>
  \<^verbatim>\<open>df.sort_values(by, ascending=False)\<close>. pandas computes the positions of the sorted
  rows (\<^verbatim>\<open>nargsort\<close>): the missing keys are set aside and go last; the others are
  reversed, sorted ascending and reversed again. The ascending sort is numpy's default,
  which does not promise an order for rows with equal keys. The model fixes one such
  order, that of the stable insertion sort \<open>sort_key\<close>. The theorems on the sorted tables
  below state what holds for every order of the rows with equal keys: that the rows are
  those of the table, rearranged, and that the keys descend.
\<close>

definition nargsort_desc :: "series \<Rightarrow> error + nat list" where
  "nargsort_desc s =
     (if \<not> comparable s then Inl TypeError
      else
        let idx = [0..<length s];
            non_nan_idx = filter (\<lambda>i. s ! i \<noteq> NaN) idx;
            nan_idx = filter (\<lambda>i. s ! i = NaN) idx
        in Inr (rev (sort_key (\<lambda>i. cell_key (s ! i)) (rev non_nan_idx)) @ nan_idx))"

text \<open>\<^verbatim>\<open>df.take(ix)\<close>: the rows at the positions \<open>ix\<close>, in that order.\<close>

definition take_rows :: "nat list \<Rightarrow> frame \<Rightarrow> frame" where
  "take_rows ix df = map (\<lambda>(c, s). (c, map (\<lambda>i. s ! i) ix)) df"

definition sort_values_desc :: "frame \<Rightarrow> string \<Rightarrow> error + frame" where
  "sort_values_desc df by =
     (case getitem df by of
        Inl e \<Rightarrow> Inl e
      | Inr s \<Rightarrow> (case nargsort_desc s of
                   Inl e \<Rightarrow> Inl e
                 | Inr ix \<Rightarrow> Inr (take_rows ix df)))"

text \<open>
  \<^verbatim>\<open>s.rank(method='min', ascending=False)\<close>. pandas sorts the values, largest first,
  and gives every value the position (from 1) of the first member of its group of equal
  values; a missing value keeps a missing rank.
\<close>

fun first_index :: "'a list \<Rightarrow> 'a \<Rightarrow> nat" where
  "first_index [] v = 0"
| "first_index (x # xs) v = (if x = v then 0 else Suc (first_index xs v))"

definition rank_min_desc :: "series \<Rightarrow> error + series" where
  "rank_min_desc s =
     (if \<not> comparable s then Inl TypeError
      else
        let sorted_vals = rev (sort_key cell_key (filter (\<lambda>c. c \<noteq> NaN) s))
        in Inr (map (\<lambda>c. if c = NaN then NaN
                          else Num (of_nat (Suc (first_index sorted_vals c)))) s))"

section \<open>talentfinder.py\<close>

subsection \<open>\<^verbatim>\<open>calculate_total_and_rank\<close>\<close>

text \<open>
  The sum of line 9, evaluated left to right: each \<^verbatim>\<open>df['markN']\<close> may raise
  \<^verbatim>\<open>KeyError\<close>, each \<^verbatim>\<open>+\<close> may raise \<^verbatim>\<open>TypeError\<close>.
\<close>

definition total_marks :: "frame \<Rightarrow> error + series" where
  "total_marks df =
     (case getitem df ''mark1'' of Inl e \<Rightarrow> Inl e | Inr m1 \<Rightarrow>
      case getitem df ''mark2'' of Inl e \<Rightarrow> Inl e | Inr m2 \<Rightarrow>
      case add_series (fillna (Num 0) m1) (fillna (Num 0) m2) of Inl e \<Rightarrow> Inl e | Inr s12 \<Rightarrow>
      case getitem df ''mark3'' of Inl e \<Rightarrow> Inl e | Inr m3 \<Rightarrow>
      add_series s12 (fillna (Num 0) m3))"

text \<open>
  The function assigns the column \<^verbatim>\<open>total marks\<close> to the frame it was given, so the
  caller's frame changes; \<^verbatim>\<open>sort_values\<close> then makes a new frame, and the rank is
  assigned to that one. The result is the caller's frame after the call, paired with the
  returned frame or the exception raised.
\<close>

definition calculate_total_and_rank :: "frame \<Rightarrow> frame \<times> (error + frame)" where
  "calculate_total_and_rank df =
     (case total_marks df of
        Inl e \<Rightarrow> (df, Inl e)
      | Inr t \<Rightarrow>
          let df1 = setitem df ''total marks'' t in
          (case sort_values_desc df1 ''total marks'' of
             Inl e \<Rightarrow> (df1, Inl e)
           | Inr df2 \<Rightarrow>
               (case getitem df2 ''total marks'' of
                  Inl e \<Rightarrow> (df1, Inl e)
                | Inr s \<Rightarrow>
                    (case rank_min_desc s of
                       Inl e \<Rightarrow> (df1, Inl e)
                     | Inr r \<Rightarrow> (df1, Inr (setitem df2 ''Rank'' r))))))"


subsection \<open>\<^verbatim>\<open>merge_with_master_data\<close>\<close>

text \<open>\<^verbatim>\<open>df[[c1, ..., cn]]\<close>: the columns named, in that order; \<^verbatim>\<open>KeyError\<close> with all
  the labels that are not columns of the frame.\<close>

definition select_columns :: "frame \<Rightarrow> string list \<Rightarrow> error + frame" where
  "select_columns df cs =
     (let missing = filter (\<lambda>c. map_of df c = None) cs
      in if missing \<noteq> [] then Inl (KeyError missing)
         else Inr (map (\<lambda>c. (c, case map_of df c of Some s \<Rightarrow> s | None \<Rightarrow> [])) cs))"

text \<open>
  \<^verbatim>\<open>pd.merge(left, right, on=key, how='right')\<close>.
  \<^item> pandas refuses to merge a key column of texts with a numeric one
    (\<^verbatim>\<open>ValueError\<close>): one key column holds a text, the other does not, and the column
    with the text holds no whole number (a column that mixes texts with whole numbers is
    merged with a numeric one).
  \<^item> A label other than the key that both frames have is renamed, \<^verbatim>\<open>_x\<close> on the
    left and \<^verbatim>\<open>_y\<close> on the right; when that makes two labels of one side
    equal, pandas raises \<^verbatim>\<open>MergeError\<close>.
  \<^item> The rows follow the right frame: each right row, in order, once for every left
    row with the same key (in the left frame's order), or once with the left columns
    missing when no left row has its key. Missing keys match each other.
  \<^item> The columns are those of the left frame, the key column holding the right frame's
    keys, followed by the right frame's columns but the key.
\<close>

definition has_text :: "series \<Rightarrow> bool" where
  "has_text s = list_ex is_Str s"

definition has_integer :: "series \<Rightarrow> bool" where
  "has_integer s = list_ex (\<lambda>c. case c of Num r \<Rightarrow> of_int \<lfloor>r\<rfloor> = r | _ \<Rightarrow> False) s"

definition refuses_keys :: "series \<Rightarrow> series \<Rightarrow> bool" where
  "refuses_keys lk rk \<longleftrightarrow>
     has_text lk \<and> \<not> has_text rk \<and> \<not> has_integer lk \<or>
     has_text rk \<and> \<not> has_text lk \<and> \<not> has_integer rk"

definition join_pairs :: "series \<Rightarrow> series \<Rightarrow> (nat option \<times> nat) list" where
  "join_pairs lk rk =
     concat (map (\<lambda>j. case filter (\<lambda>i. lk ! i = rk ! j) [0..<length lk] of
                          [] \<Rightarrow> [(None, j)]
                        | is \<Rightarrow> map (\<lambda>i. (Some i, j)) is)
                 [0..<length rk])"

definition merge_right :: "frame \<Rightarrow> frame \<Rightarrow> string \<Rightarrow> error + frame" where
  "merge_right left right key =
     (case getitem left key of Inl e \<Rightarrow> Inl e | Inr lk \<Rightarrow>
      case getitem right key of Inl e \<Rightarrow> Inl e | Inr rk \<Rightarrow>
        if refuses_keys lk rk then Inl ValueError
        else
          let overlap = filter (\<lambda>c. c \<noteq> key \<and> c \<in> set (columns right)) (columns left);
              lname = (\<lambda>c. if c \<in> set overlap then c @ ''_x'' else c);
              rname = (\<lambda>c. if c \<in> set overlap then c @ ''_y'' else c);
              rest = filter (\<lambda>(c, s). c \<noteq> key) right
          in if \<not> distinct (map lname (columns left)) \<or> \<not> distinct (map rname (columns rest))
             then Inl MergeError
             else
               let pairs = join_pairs lk rk;
                   lcols = map (\<lambda>(c, s).
                              (lname c,
                               if c = key then map (\<lambda>(i, j). rk ! j) pairs
                               else map (\<lambda>(i, j). case i of None \<Rightarrow> NaN | Some i \<Rightarrow> s ! i) pairs))
                            left;
                   rcols = map (\<lambda>(c, s). (rname c, map (\<lambda>(i, j). s ! j) pairs)) rest
               in Inr (lcols @ rcols))"

text \<open>What the programs show to the user, in the order of the calls to streamlit.\<close>

datatype ui =
    Title string
  | Subheader string
  | Write string
  | ShowFrame frame
  | ErrorMsg string
  | ErrorOccurred error
  | DownloadButton string frame

text \<open>
  The function returns the merged frame, or \<^verbatim>\<open>None\<close> after the message of
  \<^verbatim>\<open>st.error\<close>; an exception of pandas leaves it as \<open>Inl\<close>.
\<close>

definition merge_with_master_data :: "frame \<Rightarrow> frame \<Rightarrow> error + ui list \<times> frame option" where
  "merge_with_master_data marks_df master_df =
     (if ''Chest No'' \<in> set (columns marks_df) \<and> ''Chest No'' \<in> set (columns master_df) then
        (case select_columns marks_df
                [''Chest No'', ''mark1'', ''mark2'', ''mark3'', ''total marks'', ''Rank''] of
           Inl e \<Rightarrow> Inl e
         | Inr marks \<Rightarrow>
             (case merge_right master_df marks ''Chest No'' of
                Inl e \<Rightarrow> Inl e
              | Inr merged_df \<Rightarrow>
                  (case sort_values_desc merged_df ''total marks'' of
                     Inl e \<Rightarrow> Inl e
                   | Inr merged_df \<Rightarrow> Inr ([], Some merged_df))))
      else Inr ([ErrorMsg ''Chest No column not found in one or both files''], None))"

subsection \<open>\<^verbatim>\<open>main\<close>\<close>

text \<open>
  One run of the script. Its inputs are what streamlit hands to it: the text of the event
  name field, the two uploads (absent, or present with the frame that
  \<^verbatim>\<open>pd.read_excel\<close> makes of them or the exception it raises), the user's edits in
  the table editor (a function of the frame shown), and the button pressed, of which
  streamlit reports at most one in a run. The result is the list of what the run shows.
\<close>

datatype click = NoClick | CalculateResult | DownloadResult

definition required_columns :: "string list" where
  "required_columns = [''Chest No'', ''mark1'', ''mark2'', ''mark3'', ''total marks'', ''Rank'']"

text \<open>Lines 61 to 65: every required column that is missing is added, all cells missing.\<close>

definition add_missing_columns :: "frame \<Rightarrow> frame" where
  "add_missing_columns marks_df =
     (let missing_columns = filter (\<lambda>col. col \<notin> set (columns marks_df)) required_columns
      in fold (\<lambda>col df. setitem df col (replicate (nrows df) NaN)) missing_columns marks_df)"

text \<open>\<^verbatim>\<open>df.head(n)\<close>: the first \<open>n\<close> rows, or all but the last \<open>-n\<close> rows when \<open>n\<close> is
  negative.\<close>

definition head_count :: "int \<Rightarrow> nat \<Rightarrow> nat" where
  "head_count n len = (if 0 \<le> n then nat n else len - nat (- n))"

definition head_rows :: "int \<Rightarrow> frame \<Rightarrow> frame" where
  "head_rows n df = map (\<lambda>(c, s). (c, take (head_count n (length s)) s)) df"

text \<open>
  The body of the \<^verbatim>\<open>try\<close> block from the Download Result button on (lines 102 to
  134): what it shows, and the exception that ends it, if any.
\<close>

definition download_result ::
  "string \<Rightarrow> frame \<Rightarrow> (error + frame) option \<Rightarrow> ui list \<times> error option" where
  "download_result event_name edited_df master_file =
     (if event_name = [] then
        ([ErrorMsg ''Please enter an event name before downloading''], None)
      else
        (case snd (calculate_total_and_rank edited_df) of
           Inl e \<Rightarrow> ([], Some e)
         | Inr result_df \<Rightarrow>
             (case master_file of
                None \<Rightarrow> ([DownloadButton (event_name @ ''_results.xlsx'') result_df], None)
              | Some (Inl e) \<Rightarrow> ([], Some e)
              | Some (Inr master_df) \<Rightarrow>
                  (let preview = [Write ''Preview of Master Data:'', ShowFrame (head_rows 5 master_df)]
                   in case merge_with_master_data result_df master_df of
                        Inl e \<Rightarrow> (preview, Some e)
                      | Inr (shown, None) \<Rightarrow> (preview @ shown, None)
                      | Inr (shown, Some final_df) \<Rightarrow>
                          (preview @ shown @
                             [DownloadButton (event_name @ ''_results.xlsx'') final_df], None)))))"

definition calculate_result :: "frame \<Rightarrow> ui list \<times> error option" where
  "calculate_result edited_df =
     (case snd (calculate_total_and_rank edited_df) of
        Inl e \<Rightarrow> ([], Some e)
      | Inr result_df \<Rightarrow> ([Write ''Results calculated! Updated data:'', ShowFrame result_df], None))"

definition main ::
  "string \<Rightarrow> (error + frame) option \<Rightarrow> (error + frame) option \<Rightarrow> (frame \<Rightarrow> frame) \<Rightarrow> click
     \<Rightarrow> ui list" where
  "main event_name marks_file master_file data_editor pressed =
     [Title ''Event Results Calculator'',
      Subheader ''Upload Marks Entry File'', Subheader ''Upload Master Data''] @
     (case marks_file of
        None \<Rightarrow> []
      | Some upload \<Rightarrow>
          (let (shown, raised) =
             (case upload of
                Inl e \<Rightarrow> ([], Some e)
              | Inr marks_df \<Rightarrow>
                  (let edited_df = data_editor (add_missing_columns marks_df);
                       (shown, raised) =
                         (case pressed of
                            NoClick \<Rightarrow> ([], None)
                          | CalculateResult \<Rightarrow> calculate_result edited_df
                          | DownloadResult \<Rightarrow> download_result event_name edited_df master_file)
                   in (Write ''Enter marks in the table below:'' # shown, raised)))
           in shown @
              (case raised of
                 None \<Rightarrow> []
               | Some e \<Rightarrow>
                   [ErrorOccurred e,
                    ErrorMsg ''Please make sure your Excel files have the correct format''])))"

section \<open>talentfinderpro.py\<close>

subsection \<open>Grouped sums\<close>

text \<open>The columns named, or \<^verbatim>\<open>KeyError\<close> at the first label that is not a column.\<close>

fun getitems :: "frame \<Rightarrow> string list \<Rightarrow> error + series list" where
  "getitems df [] = Inr []"
| "getitems df (c # cs) =
     (case getitem df c of
        Inl e \<Rightarrow> Inl e
      | Inr s \<Rightarrow> (case getitems df cs of Inl e \<Rightarrow> Inl e | Inr ss \<Rightarrow> Inr (s # ss)))"

text \<open>The key of row \<open>i\<close>: its cells in the key columns.\<close>

definition row_key :: "series list \<Rightarrow> nat \<Rightarrow> cell list" where
  "row_key ks i = map (\<lambda>k. k ! i) ks"

text \<open>
  The sum of the cells of one group: missing cells are skipped, a group with no cell
  left sums to 0, and the others are added up with \<^verbatim>\<open>+\<close>.
\<close>

fun add_up :: "cell \<Rightarrow> series \<Rightarrow> error + cell" where
  "add_up acc [] = Inr acc"
| "add_up acc (c # cs) = (if addable acc c then add_up (plus_cell acc c) cs else Inl TypeError)"

definition sum_cells :: "series \<Rightarrow> error + cell" where
  "sum_cells s =
     (case filter (\<lambda>c. c \<noteq> NaN) s of [] \<Rightarrow> Inr (Num 0) | x # xs \<Rightarrow> add_up x xs)"

fun collect :: "(error + 'a) list \<Rightarrow> error + 'a list" where
  "collect [] = Inr []"
| "collect (x # xs) =
     (case x of
        Inl e \<Rightarrow> Inl e
      | Inr a \<Rightarrow> (case collect xs of Inl e \<Rightarrow> Inl e | Inr as \<Rightarrow> Inr (a # as)))"

text \<open>
  \<^verbatim>\<open>df.groupby(keys)[val].sum().reset_index()\<close>. With the defaults of
  \<^verbatim>\<open>groupby\<close> (\<^verbatim>\<open>sort=True\<close>, \<^verbatim>\<open>dropna=True\<close>) a row with a missing cell in a
  key column belongs to no group, and the groups come in the ascending order of their
  keys, compared column by column. The result has one row for each group: the key
  columns, then the sums.
\<close>

definition groupby_sum :: "frame \<Rightarrow> string list \<Rightarrow> string \<Rightarrow> error + frame" where
  "groupby_sum df keys val =
     (case getitems df keys of
        Inl e \<Rightarrow> Inl e
      | Inr ks \<Rightarrow>
          (case getitem df val of
             Inl e \<Rightarrow> Inl e
           | Inr v \<Rightarrow>
               (let rows = filter (\<lambda>i. NaN \<notin> set (row_key ks i)) [0..<length v];
                    groups = sort_key (map cell_key) (remdups (map (row_key ks) rows));
                    members = (\<lambda>g. filter (\<lambda>i. row_key ks i = g) rows)
                in (case collect (map (\<lambda>g. sum_cells (map (\<lambda>i. v ! i) (members g))) groups) of
                      Inl e \<Rightarrow> Inl e
                    | Inr totals \<Rightarrow>
                        Inr (map (\<lambda>(j, c). (c, map (\<lambda>g. g ! j) groups))
                               (zip [0..<length keys] keys)
                             @ [(val, totals)])))))"

subsection \<open>\<^verbatim>\<open>get_top_performers\<close>\<close>

text \<open>The four branches differ in the key columns only.\<close>

definition top_groups :: "frame \<Rightarrow> string list \<Rightarrow> int \<Rightarrow> error + frame option" where
  "top_groups df keys n =
     (case groupby_sum df keys ''Points'' of
        Inl e \<Rightarrow> Inl e
      | Inr grouped \<Rightarrow>
          (case sort_values_desc grouped ''Points'' of
             Inl e \<Rightarrow> Inl e
           | Inr sorted_df \<Rightarrow> Inr (Some (head_rows n sorted_df))))"

definition get_top_performers :: "frame \<Rightarrow> string \<Rightarrow> int \<Rightarrow> error + frame option" where
  "get_top_performers df category n =
     (if category = ''Student'' then
        top_groups df [''ID No'', ''Student Name'', ''Church'', ''Section'', ''Region''] n
      else if category = ''Church'' then top_groups df [''Church''] n
      else if category = ''Section'' then top_groups df [''Section''] n
      else if category = ''Region'' then top_groups df [''Region''] n
      else Inr None)"

section \<open>Reading the tables\<close>







text \<open>A marks table of four rows, two pairs of which tie, for the examples below.\<close>

definition marks_example :: frame where
  "marks_example =
     [(''Chest No'', [Num 101, Num 102, Num 103, Num 104]),
      (''mark1'', [Num 60, Num 90, NaN, Num 100]),
      (''mark2'', [Num 70, Num 0, Num 45, Num 60]),
      (''mark3'', [Num 80, NaN, Num 45, Num 50]),
      (''Rank'', [NaN, NaN, NaN, NaN])]"




text \<open>
  The marks table above after \<^verbatim>\<open>calculate_total_and_rank\<close>, a roster for it (which
  lacks participant 102 and has a participant 105 without marks), and a table of earlier
  results uploaded as roster, which has a column \<^verbatim>\<open>total marks\<close> of its own.
\<close>

definition ranked_example :: frame where
  "ranked_example =
     [(''Chest No'', [Num 101, Num 104, Num 102, Num 103]),
      (''mark1'', [Num 60, Num 100, Num 90, NaN]),
      (''mark2'', [Num 70, Num 60, Num 0, Num 45]),
      (''mark3'', [Num 80, Num 50, NaN, Num 45]),
      (''Rank'', [Num 1, Num 1, Num 3, Num 3]),
      (''total marks'', [Num 210, Num 210, Num 90, Num 90])]"

definition roster_example :: frame where
  "roster_example =
     [(''Chest No'', [Num 103, Num 101, Num 105, Num 104]),
      (''Name'', [Str ''Asha'', Str ''Binu'', Str ''Cini'', Str ''Dev''])]"

definition old_results_example :: frame where
  "old_results_example =
     [(''Chest No'', [Num 103, Num 101]),
      (''Name'', [Str ''Asha'', Str ''Binu'']),
      (''total marks'', [Num 150, Num 120])]"


section \<open>Lemmas on the tables\<close>





lemma map_of_setitem: "map_of (setitem df c s) = (map_of df)(c \<mapsto> s)"
  by (simp add: setitem_def update_conv')


lemma map_of_take_rows:
  "map_of (take_rows ix df) c = map_option (\<lambda>s. map (\<lambda>i. s ! i) ix) (map_of df c)"
  by (induction df) (auto simp: take_rows_def)





lemma sorted_desc_rev_sort_key:
  "sorted_wrt (\<lambda>a b. f b \<le> f a) (rev (sort_key f xs))"
proof -
  have "sorted (map f (sort_key f xs))" by simp
  then have "sorted_wrt (\<lambda>a b. f a \<le> f b) (sort_key f xs)"
    by (simp add: sorted_map)
  then show ?thesis by (simp add: sorted_wrt_rev)
qed


lemma wf_frame_length: "wf_frame df \<Longrightarrow> map_of df c = Some s \<Longrightarrow> length s = nrows df"
  by (auto simp: wf_frame_def list_all_iff dest!: map_of_SomeD)

lemma mset_filter_split: "mset (filter P xs) + mset (filter (\<lambda>x. \<not> P x) xs) = mset xs"
  by (induction xs) auto

lemma nargsort_desc_mset:
  assumes "nargsort_desc s = Inr ix"
  shows "mset ix = mset [0..<length s]"
proof -
  let ?idx = "[0..<length s]"
  from assms have "ix = rev (sort_key (\<lambda>i. cell_key (s ! i)) (rev (filter (\<lambda>i. s ! i \<noteq> NaN) ?idx)))
      @ filter (\<lambda>i. s ! i = NaN) ?idx"
    by (simp add: nargsort_desc_def Let_def split: if_splits)
  then have "mset ix = mset (filter (\<lambda>i. s ! i \<noteq> NaN) ?idx) + mset (filter (\<lambda>i. \<not> s ! i \<noteq> NaN) ?idx)"
    by (simp del: mset_filter mset_upt)
  then show ?thesis
    by (simp only: mset_filter_split)
qed

lemma mset_upt_bounds: "mset ix = mset [0..<n] \<Longrightarrow> length ix = n \<and> (\<forall>i\<in>set ix. i < n)"
  by (metis atLeastLessThan_iff length_upt mset_eq_setD set_upt size_mset minus_nat.diff_0)

lemma nargsort_desc_sorted:
  assumes "nargsort_desc s = Inr ix" "NaN \<notin> set s"
  shows "sorted_wrt (\<lambda>a b. cell_key b \<le> cell_key a) (map (\<lambda>i. s ! i) ix)"
proof -
  have "s ! i \<noteq> NaN" if "i < length s" for i
    using assms(2) nth_mem[OF that] by metis
  then have "filter (\<lambda>i. s ! i = NaN) [0..<length s] = []"
    by (simp add: filter_empty_conv)
  with assms(1) have "ix = rev (sort_key (\<lambda>i. cell_key (s ! i)) (rev (filter (\<lambda>i. s ! i \<noteq> NaN) [0..<length s])))"
    by (auto simp: nargsort_desc_def Let_def split: if_splits)
  then show ?thesis
    using sorted_desc_rev_sort_key[of "\<lambda>i. cell_key (s ! i)"]
    by (simp add: sorted_wrt_map)
qed


lemma add_series_no_NaN:
  "add_series xs ys = Inr zs \<Longrightarrow> NaN \<notin> set xs \<Longrightarrow> NaN \<notin> set ys \<Longrightarrow> NaN \<notin> set zs"
proof -
  have "plus_cell a b \<noteq> NaN" if "addable a b" "a \<noteq> NaN" "b \<noteq> NaN" for a b
    using that by (cases a; cases b) auto
  then show "add_series xs ys = Inr zs \<Longrightarrow> NaN \<notin> set xs \<Longrightarrow> NaN \<notin> set ys \<Longrightarrow> NaN \<notin> set zs"
    by (auto simp: add_series_def list_all_iff split: if_splits)
      (metis set_zip_leftD set_zip_rightD case_prodD)
qed

lemma fillna_no_NaN: "NaN \<notin> set (fillna (Num 0) m)"
  by (auto simp: fillna_def)

lemma total_marks_no_NaN: "total_marks df = Inr t \<Longrightarrow> NaN \<notin> set t"
  by (auto simp: total_marks_def split: sum.splits dest!: add_series_no_NaN simp: fillna_no_NaN)






lemma columns_setitem:
  "columns (setitem df c s) = (if c \<in> set (columns df) then columns df else columns df @ [c])"
  by (simp add: columns_def setitem_def update_keys)

lemma mset_take_perm:
  assumes "mset ix = mset [0..<length t]"
  shows "mset (map (\<lambda>i. t ! i) ix) = mset t"
proof -
  have "mset (map (\<lambda>i. t ! i) ix) = image_mset (\<lambda>i. t ! i) (mset ix)" by simp
  also have "\<dots> = mset (map (\<lambda>i. t ! i) [0..<length t])"
    unfolding assms by (simp del: mset_upt)
  also have "\<dots> = mset t" by (simp only: map_nth)
  finally show ?thesis .
qed

subsection \<open>Grouping and sums\<close>





















subsection \<open>The right join\<close>

lemma join_pairs_sound:
  assumes "(io, j) \<in> set (join_pairs lk rk)"
  shows "j < length rk \<and>
    (case io of None \<Rightarrow> rk ! j \<notin> set lk | Some i \<Rightarrow> i < length lk \<and> lk ! i = rk ! j)"
proof -
  from assms obtain j' where j': "j' < length rk" and
    mem: "(io, j) \<in> set (case filter (\<lambda>i. lk ! i = rk ! j') [0..<length lk] of
                          [] \<Rightarrow> [(None, j')]
                        | is \<Rightarrow> map (\<lambda>i. (Some i, j')) is)"
    by (auto simp: join_pairs_def)
  show ?thesis
  proof (cases "filter (\<lambda>i. lk ! i = rk ! j') [0..<length lk]")
    case Nil
    then have "\<forall>i<length lk. lk ! i \<noteq> rk ! j'"
      by (simp add: filter_empty_conv)
    then have "rk ! j' \<notin> set lk"
      by (auto simp: in_set_conv_nth)
    with mem Nil j' show ?thesis by simp
  next
    case (Cons x xs)
    with mem obtain i where "io = Some i" "j = j'"
      "i \<in> set (filter (\<lambda>i. lk ! i = rk ! j') [0..<length lk])"
      by auto
    with j' show ?thesis by simp
  qed
qed

lemma join_pairs_complete:
  assumes "j < length rk"
  shows "\<exists>io. (io, j) \<in> set (join_pairs lk rk)"
proof (cases "filter (\<lambda>i. lk ! i = rk ! j) [0..<length lk]")
  case Nil
  with assms have "(None, j) \<in> set (join_pairs lk rk)"
    by (auto simp: join_pairs_def intro!: bexI[of _ j])
  then show ?thesis ..
next
  case (Cons x xs)
  with assms have "(Some x, j) \<in> set (join_pairs lk rk)"
    by (auto simp: join_pairs_def intro!: bexI[of _ j])
  then show ?thesis ..
qed

lemma map_of_map_columns:
  "map_of (map (\<lambda>(c, s). (c, F c s)) df) c = map_option (F c) (map_of df c)"
  by (induction df) auto

lemma comparable_subset: "comparable ys \<Longrightarrow> set xs \<subseteq> set ys \<Longrightarrow> comparable xs"
  by (auto simp: comparable_def list_all_iff)

lemma merge_right_no_clash:
  assumes "map_of left key = Some lk" "map_of right key = Some rk"
    and "\<not> refuses_keys lk rk"
    and "distinct (columns left)" "distinct (columns right)"
    and "\<forall>c\<in>set (columns left). c \<noteq> key \<longrightarrow> c \<notin> set (columns right)"
  shows "merge_right left right key =
    Inr (map (\<lambda>(c, s).
               (c, if c = key then map (\<lambda>(i, j). rk ! j) (join_pairs lk rk)
                   else map (\<lambda>(i, j). case i of None \<Rightarrow> NaN | Some i \<Rightarrow> s ! i) (join_pairs lk rk)))
           left
         @ map (\<lambda>(c, s). (c, map (\<lambda>(i, j). s ! j) (join_pairs lk rk)))
             (filter (\<lambda>(c, s). c \<noteq> key) right))"
proof -
  have ov: "filter (\<lambda>c. c \<noteq> key \<and> c \<in> set (columns right)) (columns left) = []"
    using assms(6) by (auto simp: filter_empty_conv)
  have "columns (filter (\<lambda>(c, s). c \<noteq> key) right) = filter (\<lambda>c. c \<noteq> key) (columns right)"
    by (induction right) (auto simp: columns_def)
  then have d: "distinct (columns (filter (\<lambda>(c, s). c \<noteq> key) right))"
    using assms(5) by simp
  show ?thesis
    unfolding merge_right_def
    by (simp add: getitem_def assms(1-4) ov d Let_def)
qed

lemma map_of_columns: "map_of df c = Some s \<Longrightarrow> c \<in> set (columns df)"
  by (auto simp: columns_def dest!: map_of_SomeD intro: rev_image_eqI)

section \<open>Properties of \<^verbatim>\<open>calculate_total_and_rank\<close>\<close>

text \<open>
  In the theorems of this section a marks table is a frame whose columns have one length
  and distinct labels, with the three score columns \<^verbatim>\<open>mark1\<close>, \<^verbatim>\<open>mark2\<close>,
  \<^verbatim>\<open>mark3\<close> holding exact scores: missing cells and numbers that pandas adds without
  rounding.
\<close>






text \<open>
  C8. On the two-row table with the score triples 60, 70, 80 and 90, 0, 0 the totals are
  210 and 90 and the ranks are 1 and 2.
\<close>

theorem example_totals_and_ranks:
  "calculate_total_and_rank
     [(''mark1'', [Num 60, Num 90]), (''mark2'', [Num 70, Num 0]), (''mark3'', [Num 80, Num 0])]
   = ([(''mark1'', [Num 60, Num 90]), (''mark2'', [Num 70, Num 0]), (''mark3'', [Num 80, Num 0]),
       (''total marks'', [Num 210, Num 90])],
      Inr [(''mark1'', [Num 60, Num 90]), (''mark2'', [Num 70, Num 0]), (''mark3'', [Num 80, Num 0]),
           (''total marks'', [Num 210, Num 90]), (''Rank'', [Num 1, Num 2])])"
  by code_simp

text \<open>
  C10. The call changes its argument. Whenever it returns, the caller's table is the
  argument with the column \<^verbatim>\<open>total marks\<close> holding the computed sums, overwritten where
  it stood or appended; every other column, the \<^verbatim>\<open>Rank\<close> column among them, and the
  order of the rows are as before. The returned table holds the same totals sorted
  descending, and the ranks computed from them.
\<close>

theorem argument_total_overwritten:
  assumes "calculate_total_and_rank df = (df', Inr res)"
  shows "\<exists>t rt r. total_marks df = Inr t \<and>
     map_of df' ''total marks'' = Some t \<and>
     (\<forall>c. c \<noteq> ''total marks'' \<longrightarrow> map_of df' c = map_of df c) \<and>
     columns df' =
       (if ''total marks'' \<in> set (columns df) then columns df else columns df @ [''total marks'']) \<and>
     map_of res ''total marks'' = Some rt \<and> mset rt = mset t \<and>
     sorted_wrt (\<lambda>a b. cell_key b \<le> cell_key a) rt \<and>
     map_of res ''Rank'' = Some r \<and> rank_min_desc rt = Inr r"
proof -
  from assms obtain t ix r where
    t: "total_marks df = Inr t" and
    df': "df' = setitem df ''total marks'' t" and
    ix: "nargsort_desc t = Inr ix" and
    r: "rank_min_desc (map (\<lambda>i. t ! i) ix) = Inr r" and
    res: "res = setitem (take_rows ix df') ''Rank'' r"
    by (auto simp: calculate_total_and_rank_def Let_def sort_values_desc_def getitem_def
        map_of_setitem map_of_take_rows split: sum.splits)
  let ?rt = "map (\<lambda>i. t ! i) ix"
  have "map_of res ''total marks'' = Some ?rt"
    by (simp add: res df' map_of_setitem map_of_take_rows)
  moreover have "mset ?rt = mset t"
    using nargsort_desc_mset[OF ix] by (rule mset_take_perm)
  moreover have "sorted_wrt (\<lambda>a b. cell_key b \<le> cell_key a) ?rt"
    using ix total_marks_no_NaN[OF t] by (rule nargsort_desc_sorted)
  moreover have "map_of res ''Rank'' = Some r"
    by (simp add: res map_of_setitem)
  ultimately show ?thesis
    using t r by (simp add: df' map_of_setitem columns_setitem)
qed

theorem argument_total_overwritten_witness:
  "calculate_total_and_rank marks_example =
     (marks_example @ [(''total marks'', [Num 210, Num 90, Num 90, Num 210])],
      Inr [(''Chest No'', [Num 101, Num 104, Num 102, Num 103]),
           (''mark1'', [Num 60, Num 100, Num 90, NaN]),
           (''mark2'', [Num 70, Num 60, Num 0, Num 45]),
           (''mark3'', [Num 80, Num 50, NaN, Num 45]),
           (''Rank'', [Num 1, Num 1, Num 3, Num 3]),
           (''total marks'', [Num 210, Num 210, Num 90, Num 90])]) \<and>
   (\<exists>t rt r. total_marks marks_example = Inr t \<and>
     map_of (marks_example @ [(''total marks'', [Num 210, Num 90, Num 90, Num 210])])
       ''total marks'' = Some t \<and>
     rank_min_desc rt = Inr r)"
proof -
  have c: "calculate_total_and_rank marks_example =
     (marks_example @ [(''total marks'', [Num 210, Num 90, Num 90, Num 210])],
      Inr [(''Chest No'', [Num 101, Num 104, Num 102, Num 103]),
           (''mark1'', [Num 60, Num 100, Num 90, NaN]),
           (''mark2'', [Num 70, Num 60, Num 0, Num 45]),
           (''mark3'', [Num 80, Num 50, NaN, Num 45]),
           (''Rank'', [Num 1, Num 1, Num 3, Num 3]),
           (''total marks'', [Num 210, Num 210, Num 90, Num 90])])"
    by code_simp
  from argument_total_overwritten[OF c] c show ?thesis by blast
qed

section \<open>Properties of \<^verbatim>\<open>merge_with_master_data\<close> and \<^verbatim>\<open>main\<close>\<close>

text \<open>
  C4. When the column \<^verbatim>\<open>Chest No\<close> is absent from the marks table or from the master
  table, the call shows the error message and returns \<^verbatim>\<open>None\<close>; it returns a merged
  table only when both tables have the column.
\<close>

theorem merge_rejected_without_key:
  "(''Chest No'' \<notin> set (columns marks_df) \<or> ''Chest No'' \<notin> set (columns master_df) \<longrightarrow>
      merge_with_master_data marks_df master_df =
        Inr ([ErrorMsg ''Chest No column not found in one or both files''], None)) \<and>
   (\<forall>shown merged_df.
      merge_with_master_data marks_df master_df = Inr (shown, Some merged_df) \<longrightarrow>
      ''Chest No'' \<in> set (columns marks_df) \<and> ''Chest No'' \<in> set (columns master_df))"
proof (intro conjI impI allI)
  assume "''Chest No'' \<notin> set (columns marks_df) \<or> ''Chest No'' \<notin> set (columns master_df)"
  then show "merge_with_master_data marks_df master_df =
      Inr ([ErrorMsg ''Chest No column not found in one or both files''], None)"
    unfolding merge_with_master_data_def by (simp only: de_Morgan_conj[symmetric] if_False)
next
  fix shown merged_df
  assume "merge_with_master_data marks_df master_df = Inr (shown, Some merged_df)"
  then have "''Chest No'' \<in> set (columns marks_df) \<and> ''Chest No'' \<in> set (columns master_df)"
    unfolding merge_with_master_data_def by (simp split: if_splits)
  then show "''Chest No'' \<in> set (columns marks_df)" "''Chest No'' \<in> set (columns master_df)"
    by simp_all
qed

theorem merge_rejected_without_key_witness:
  "merge_with_master_data ranked_example [(''Name'', [Str ''Asha''])] =
     Inr ([ErrorMsg ''Chest No column not found in one or both files''], None) \<and>
   (\<exists>merged_df. merge_with_master_data ranked_example roster_example = Inr ([], Some merged_df)) \<and>
   ''Chest No'' \<in> set (columns ranked_example) \<and> ''Chest No'' \<in> set (columns roster_example)"
proof -
  have "''Chest No'' \<notin> set (columns [(''Name'', [Str ''Asha''])])"
    by (simp add: columns_def)
  with merge_rejected_without_key[of ranked_example "[(''Name'', [Str ''Asha''])]"]
  have a: "merge_with_master_data ranked_example [(''Name'', [Str ''Asha''])] =
     Inr ([ErrorMsg ''Chest No column not found in one or both files''], None)"
    by blast
  have c: "merge_with_master_data ranked_example roster_example =
    Inr ([], Some
       [(''Chest No'', [Num 101, Num 104, Num 102, Num 103]),
        (''Name'', [Str ''Binu'', Str ''Dev'', NaN, Str ''Asha'']),
        (''mark1'', [Num 60, Num 100, Num 90, NaN]),
        (''mark2'', [Num 70, Num 60, Num 0, Num 45]),
        (''mark3'', [Num 80, Num 50, NaN, Num 45]),
        (''total marks'', [Num 210, Num 210, Num 90, Num 90]),
        (''Rank'', [Num 1, Num 1, Num 3, Num 3])])"
    by code_simp
  with merge_rejected_without_key[of ranked_example roster_example]
  have "''Chest No'' \<in> set (columns ranked_example) \<and> ''Chest No'' \<in> set (columns roster_example)"
    by blast
  with a c show ?thesis by blast
qed

text \<open>
  C5. The claim is what the function is written to do, and the lemma at the end of this
  section proves it of a master table that shares no label but \<^verbatim>\<open>Chest No\<close> with the
  marks table. The code misses the case of a master table that has a column
  \<^verbatim>\<open>total marks\<close> of its own, for instance a table of earlier results uploaded as
  roster. There the join itself still succeeds, but \<^verbatim>\<open>pd.merge\<close> renames the two
  columns of that label to \<^verbatim>\<open>total marks_x\<close> and \<^verbatim>\<open>total marks_y\<close>, and line 31
  sorts by \<^verbatim>\<open>total marks\<close>, which is no longer a column: the call raises
  \<^verbatim>\<open>KeyError\<close> and no row of the marks table appears anywhere.
\<close>


theorem merge_raises_on_total_marks_clash:
  "''Chest No'' \<in> set (columns ranked_example) \<and>
   ''Chest No'' \<in> set (columns old_results_example) \<and>
   merge_with_master_data ranked_example old_results_example = Inl (KeyError [''total marks''])"
  by code_simp

text \<open>The join of lines 26 to 28 on these two tables, which line 31 then fails to sort:\<close>

lemma join_renames_total_marks:
  "(case select_columns ranked_example required_columns of
      Inl e \<Rightarrow> Inl e
    | Inr marks \<Rightarrow> merge_right old_results_example marks ''Chest No'') =
     Inr [(''Chest No'', [Num 101, Num 104, Num 102, Num 103]),
          (''Name'', [Str ''Binu'', NaN, NaN, Str ''Asha'']),
          (''total marks_x'', [Num 120, NaN, NaN, Num 150]),
          (''mark1'', [Num 60, Num 100, Num 90, NaN]),
          (''mark2'', [Num 70, Num 60, Num 0, Num 45]),
          (''mark3'', [Num 80, Num 50, NaN, Num 45]),
          (''total marks_y'', [Num 210, Num 210, Num 90, Num 90]),
          (''Rank'', [Num 1, Num 1, Num 3, Num 3])]"
  by code_simp

text \<open>
  Where the labels of the two tables do not clash, the call returns the right join. When
  both tables have the column \<^verbatim>\<open>Chest No\<close>, the marks table has the five columns
  \<^verbatim>\<open>mark1\<close>, \<^verbatim>\<open>mark2\<close>, \<^verbatim>\<open>mark3\<close>, \<^verbatim>\<open>total marks\<close> and \<^verbatim>\<open>Rank\<close>, the master
  table has none of these five labels, pandas does not refuse the key columns and the
  totals can be ordered, then every row of the marks table appears in the merged table;
  the keys of the merged table are exactly the keys of the marks table, so a master row
  whose key has no marks does not appear; and each merged row carries the columns of a
  master row with its key, or missing cells in the master's columns when the master has
  no row with its key.
\<close>

lemma right_join_of_marks:
  assumes wf: "wf_frame marks_df" "wf_frame master_df"
    and mcols: "map_of marks_df ''Chest No'' = Some rk" "map_of marks_df ''mark1'' = Some m1"
      "map_of marks_df ''mark2'' = Some m2" "map_of marks_df ''mark3'' = Some m3"
      "map_of marks_df ''total marks'' = Some tm" "map_of marks_df ''Rank'' = Some rnk"
    and lk: "map_of master_df ''Chest No'' = Some lk"
    and noclash: "set (columns master_df) \<inter> {''mark1'', ''mark2'', ''mark3'', ''total marks'', ''Rank''} = {}"
    and kinds: "\<not> refuses_keys lk rk"
    and cmp: "comparable tm"
  shows "\<exists>merged mk.
     merge_with_master_data marks_df master_df = Inr ([], Some merged) \<and>
     map_of merged ''Chest No'' = Some mk \<and> set mk = set rk \<and>
     (\<forall>j<length rk. \<exists>p<length mk. \<forall>c\<in>set required_columns.
        \<exists>s s'. map_of marks_df c = Some s \<and> map_of merged c = Some s' \<and> s' ! p = s ! j) \<and>
     (\<forall>p<length mk.
        (\<exists>i<length lk. lk ! i = mk ! p \<and>
           (\<forall>c s. map_of master_df c = Some s \<longrightarrow>
              (\<exists>s'. map_of merged c = Some s' \<and> s' ! p = s ! i))) \<or>
        (mk ! p \<notin> set lk \<and>
           (\<forall>c s. map_of master_df c = Some s \<longrightarrow> c \<noteq> ''Chest No'' \<longrightarrow>
              (\<exists>s'. map_of merged c = Some s' \<and> s' ! p = NaN))))"
proof -
  let ?key = "''Chest No''"
  let ?marks = "[(?key, rk), (''mark1'', m1), (''mark2'', m2), (''mark3'', m3),
    (''total marks'', tm), (''Rank'', rnk)]"
  define pairs where "pairs = join_pairs lk rk"
  define L where "L c s = (if c = ?key then map (\<lambda>(i, j). rk ! j) pairs
      else map (\<lambda>(i, j). case i of None \<Rightarrow> NaN | Some i \<Rightarrow> s ! i) pairs)" for c and s :: series
  define R where "R s = map (\<lambda>(i, j). s ! j) pairs" for s :: series
  define merged0 where "merged0 = map (\<lambda>(c, s). (c, L c s)) master_df
      @ map (\<lambda>(c, s). (c, R s)) (filter (\<lambda>(c, s). c \<noteq> ?key) ?marks)"
  have sel: "select_columns marks_df
      [?key, ''mark1'', ''mark2'', ''mark3'', ''total marks'', ''Rank''] = Inr ?marks"
    by (simp add: select_columns_def mcols)
  have in_master: "?key \<in> set (columns master_df)" "?key \<in> set (columns marks_df)"
    using lk mcols(1) by (simp_all add: map_of_columns)
  define five where "five = {''mark1'', ''mark2'', ''mark3'', ''total marks'', ''Rank''}"
  have mem5: "''mark1'' \<in> five" "''mark2'' \<in> five" "''mark3'' \<in> five"
    "''total marks'' \<in> five" "''Rank'' \<in> five"
    by (simp_all add: five_def)
  have nc: "set (columns master_df) \<inter> five = {}"
    using noclash by (simp only: five_def)
  have not5: "map_of master_df c = None" if "c \<in> five" for c
  proof -
    from that nc have "c \<notin> set (columns master_df)" by blast
    then show ?thesis by (simp add: map_of_eq_None_iff columns_def)
  qed
  have mr: "merge_right master_df ?marks ?key = Inr merged0"
    unfolding merged0_def L_def R_def pairs_def
  proof (rule merge_right_no_clash)
    show "distinct (columns master_df)" using wf(2) by (simp add: wf_frame_def)
    have "set (columns ?marks) = insert ?key five"
      by (simp add: columns_def five_def)
    with nc show "\<forall>c\<in>set (columns master_df). c \<noteq> ?key \<longrightarrow> c \<notin> set (columns ?marks)"
      by blast
    show "map_of master_df ?key = Some lk" by (rule lk)
    show "map_of ?marks ?key = Some rk" by simp
    show "\<not> refuses_keys lk rk" by (rule kinds)
    show "distinct (columns ?marks)" by (simp add: columns_def)
  qed
  \<comment> \<open>the columns of the join\<close>
  have left_col: "map_of merged0 c = Some (L c s)" if "map_of master_df c = Some s" for c s
    using that by (simp add: merged0_def map_add_def map_of_map_columns)
  have no_left: "map_of (map (\<lambda>(c, s). (c, L c s)) master_df) c = None"
    if "c \<in> five" for c
    using not5[OF that] by (simp add: map_of_map_columns)
  have right_col: "map_of merged0 ''mark1'' = Some (R m1)" "map_of merged0 ''mark2'' = Some (R m2)"
    "map_of merged0 ''mark3'' = Some (R m3)" "map_of merged0 ''total marks'' = Some (R tm)"
    "map_of merged0 ''Rank'' = Some (R rnk)"
    unfolding merged0_def by (simp_all add: map_add_def no_left[OF mem5(1)] no_left[OF mem5(2)]
        no_left[OF mem5(3)] no_left[OF mem5(4)] no_left[OF mem5(5)])
  \<comment> \<open>the sort\<close>
  have len_tm: "length tm = length rk"
    using wf(1) mcols by (simp add: wf_frame_length)
  have pj: "j < length rk" if "(io, j) \<in> set pairs" for io j
    using join_pairs_sound that unfolding pairs_def by blast
  have "set (R tm) \<subseteq> set tm"
    using pj len_tm by (auto simp: R_def)
  with cmp have "comparable (R tm)" by (rule comparable_subset)
  then obtain ix where ix: "nargsort_desc (R tm) = Inr ix"
    by (simp add: nargsort_desc_def Let_def)
  note tot0 = right_col(4)
  define merged where "merged = take_rows ix merged0"
  have call: "merge_with_master_data marks_df master_df = Inr ([], Some merged)"
    unfolding merge_with_master_data_def
    by (simp add: in_master sel mr sort_values_desc_def getitem_def tot0 ix merged_def)
  have "mset ix = mset [0..<length (R tm)]"
    using ix by (rule nargsort_desc_mset)
  then have ms: "mset ix = mset [0..<length pairs]" by (simp add: R_def)
  then have bnd: "length ix = length pairs" "\<forall>i\<in>set ix. i < length pairs"
    using mset_upt_bounds by blast+
  have set_ix: "set ix = {0..<length pairs}"
    using mset_eq_setD[OF ms] by simp
  define mk where "mk = map (\<lambda>i. L ?key lk ! i) ix"
  have mcol: "map_of merged c = Some (map (\<lambda>i. s0 ! i) ix)" if "map_of merged0 c = Some s0" for c s0
    using that by (simp add: merged_def map_of_take_rows)
  have key_col: "map_of merged ?key = Some mk"
    unfolding mk_def by (rule mcol, rule left_col, rule lk)
  have len_mk: "length mk = length pairs"
    by (simp add: mk_def bnd)
  have nth_mk: "mk ! p = rk ! snd (pairs ! (ix ! p))" if "p < length mk" for p
    using that bnd by (simp add: mk_def L_def case_prod_unfold)
  \<comment> \<open>every row of the marks table\<close>
  have marks_row: "\<exists>p<length mk. snd (pairs ! (ix ! p)) = j" if "j < length rk" for j
  proof -
    from join_pairs_complete[OF that] obtain io where "(io, j) \<in> set pairs"
      unfolding pairs_def by blast
    then obtain q where q: "q < length pairs" "pairs ! q = (io, j)"
      by (auto simp: in_set_conv_nth)
    then have "q \<in> set ix" by (simp add: set_ix)
    then obtain p where "p < length ix" "ix ! p = q"
      by (auto simp: in_set_conv_nth)
    with q show ?thesis by (intro exI[of _ p]) (simp add: len_mk bnd)
  qed
  have marks_cell: "\<forall>c\<in>set required_columns.
      \<exists>s s'. map_of marks_df c = Some s \<and> map_of merged c = Some s' \<and>
        s' ! p = s ! snd (pairs ! (ix ! p))"
    if "p < length mk" for p
  proof -
    have q: "ix ! p < length pairs" using that bnd len_mk by simp
    have r: "map (\<lambda>i. R s ! i) ix ! p = s ! snd (pairs ! (ix ! p))" for s
      using that q len_mk bnd by (simp add: R_def case_prod_unfold)
    have "\<exists>s s'. map_of marks_df ?key = Some s \<and> map_of merged ?key = Some s' \<and>
        s' ! p = s ! snd (pairs ! (ix ! p))"
      using mcols(1) key_col nth_mk[OF that] by simp
    moreover have "\<exists>s s'. map_of marks_df ''mark1'' = Some s \<and> map_of merged ''mark1'' = Some s' \<and>
        s' ! p = s ! snd (pairs ! (ix ! p))"
      using mcols(2) mcol[OF right_col(1)] r by simp
    moreover have "\<exists>s s'. map_of marks_df ''mark2'' = Some s \<and> map_of merged ''mark2'' = Some s' \<and>
        s' ! p = s ! snd (pairs ! (ix ! p))"
      using mcols(3) mcol[OF right_col(2)] r by simp
    moreover have "\<exists>s s'. map_of marks_df ''mark3'' = Some s \<and> map_of merged ''mark3'' = Some s' \<and>
        s' ! p = s ! snd (pairs ! (ix ! p))"
      using mcols(4) mcol[OF right_col(3)] r by simp
    moreover have "\<exists>s s'. map_of marks_df ''total marks'' = Some s \<and>
        map_of merged ''total marks'' = Some s' \<and> s' ! p = s ! snd (pairs ! (ix ! p))"
      using mcols(5) mcol[OF right_col(4)] r by simp
    moreover have "\<exists>s s'. map_of marks_df ''Rank'' = Some s \<and> map_of merged ''Rank'' = Some s' \<and>
        s' ! p = s ! snd (pairs ! (ix ! p))"
      using mcols(6) mcol[OF right_col(5)] r by simp
    ultimately show ?thesis
      unfolding required_columns_def by (simp only: list.set ball_simps simp_thms)
  qed
  have rows: "\<forall>j<length rk. \<exists>p<length mk. \<forall>c\<in>set required_columns.
        \<exists>s s'. map_of marks_df c = Some s \<and> map_of merged c = Some s' \<and> s' ! p = s ! j"
  proof (intro allI impI)
    fix j assume "j < length rk"
    from marks_row[OF this] obtain p where p: "p < length mk" "snd (pairs ! (ix ! p)) = j"
      by blast
    with marks_cell[OF p(1)] show "\<exists>p<length mk. \<forall>c\<in>set required_columns.
        \<exists>s s'. map_of marks_df c = Some s \<and> map_of merged c = Some s' \<and> s' ! p = s ! j"
      by blast
  qed
  \<comment> \<open>the keys\<close>
  have "set mk = set rk"
  proof (intro set_eqI iffI)
    fix k assume "k \<in> set mk"
    then obtain p where p: "p < length mk" "k = mk ! p" by (auto simp: in_set_conv_nth)
    then have "ix ! p < length pairs" using bnd len_mk by simp
    then have "pairs ! (ix ! p) \<in> set pairs" by simp
    then have "snd (pairs ! (ix ! p)) < length rk"
      using pj[of "fst (pairs ! (ix ! p))" "snd (pairs ! (ix ! p))"] by simp
    with p nth_mk show "k \<in> set rk" by simp
  next
    fix k assume "k \<in> set rk"
    then obtain j where j: "j < length rk" "k = rk ! j" by (auto simp: in_set_conv_nth)
    from marks_row[OF j(1)] obtain p where "p < length mk" "snd (pairs ! (ix ! p)) = j" by blast
    with j nth_mk show "k \<in> set mk" by (auto simp: in_set_conv_nth)
  qed
  \<comment> \<open>the columns of the master table\<close>
  have master_row: "(\<exists>i<length lk. lk ! i = mk ! p \<and>
           (\<forall>c s. map_of master_df c = Some s \<longrightarrow>
              (\<exists>s'. map_of merged c = Some s' \<and> s' ! p = s ! i))) \<or>
        (mk ! p \<notin> set lk \<and>
           (\<forall>c s. map_of master_df c = Some s \<longrightarrow> c \<noteq> ?key \<longrightarrow>
              (\<exists>s'. map_of merged c = Some s' \<and> s' ! p = NaN)))"
    if p: "p < length mk" for p
  proof -
    have q: "ix ! p < length pairs" "p < length ix" using p bnd len_mk by simp_all
    obtain io j where pr: "pairs ! (ix ! p) = (io, j)" by (cases "pairs ! (ix ! p)")
    with q have "(io, j) \<in> set pairs" by (metis nth_mem)
    from join_pairs_sound[OF this[unfolded pairs_def]] have j: "j < length rk" and
      io: "case io of None \<Rightarrow> rk ! j \<notin> set lk | Some i \<Rightarrow> i < length lk \<and> lk ! i = rk ! j"
      by simp_all
    have mkp: "mk ! p = rk ! j" using nth_mk[OF p] pr by simp
    have cell: "\<exists>s'. map_of merged c = Some s' \<and> s' ! p = L c s ! (ix ! p)"
      if "map_of master_df c = Some s" for c s
      using mcol[OF left_col[OF that]] q by simp
    show ?thesis
    proof (cases io)
      case None
      with io mkp have "mk ! p \<notin> set lk" by simp
      moreover have "L c s ! (ix ! p) = NaN" if "c \<noteq> ?key" for c s
        using that q pr None by (simp add: L_def)
      ultimately show ?thesis using cell by metis
    next
      case (Some i)
      with io mkp have i: "i < length lk" "lk ! i = mk ! p" by simp_all
      have "L c s ! (ix ! p) = s ! i" if "map_of master_df c = Some s" for c s
      proof (cases "c = ?key")
        case True
        with that lk have "s = lk" by simp
        with True q pr i mkp show ?thesis by (simp add: L_def)
      next
        case False
        with q pr Some show ?thesis by (simp add: L_def)
      qed
      with cell i show ?thesis by metis
    qed
  qed
  from call key_col \<open>set mk = set rk\<close> rows master_row show ?thesis by blast
qed

text \<open>
  C7. With an empty event name the Download Result button shows the error message and
  nothing else: the run ends there, whatever the master upload is, with no preview of the
  master data, no merge and no download button.
\<close>

theorem download_needs_event_name:
  "download_result [] edited_df master_file =
     ([ErrorMsg ''Please enter an event name before downloading''], None) \<and>
   main [] (Some (Inr marks_df)) master_file data_editor DownloadResult =
     [Title ''Event Results Calculator'',
      Subheader ''Upload Marks Entry File'', Subheader ''Upload Master Data'',
      Write ''Enter marks in the table below:'',
      ErrorMsg ''Please enter an event name before downloading'']"
  by (simp add: main_def download_result_def)

section \<open>Properties of \<^verbatim>\<open>get_top_performers\<close>\<close>







text \<open>
  C9. For a category that is none of the four supported ones, the call returns
  \<^verbatim>\<open>None\<close> and raises nothing.
\<close>

theorem unsupported_category_returns_None:
  "category \<notin> {''Student'', ''Church'', ''Section'', ''Region''} \<Longrightarrow>
   get_top_performers df category n = Inr None"
  by (simp add: get_top_performers_def)

theorem unsupported_category_returns_None_witness:
  "get_top_performers [(''Church'', [Str ''Zion'']), (''Points'', [Num 5])] ''Team'' 5 = Inr None"
  using unsupported_category_returns_None[of "''Team''" "[(''Church'', [Str ''Zion'']), (''Points'', [Num 5])]" 5]
  by simp

end
